theory Spec2Isabelle
  imports Complex_Main "HOL-Library.AList"
begin

section \<open>Python values and dictionaries\<close>

text \<open>
  The weather records are Python dictionaries of type \<open>Dict[str, Any]\<close>. The values that
  occur are floats, ints and strings. A finite float is modelled by the real number it
  denotes, which is exact for the comparisons the program makes. The values stored in the
  table, the threshold and the parameters of a request are finite floats. A decimal literal of the source such as
  \<open>68.3\<close> is written as it is and stands for the float nearest to it; the program only
  stores, compares and returns these values.

  A dictionary is an association list in insertion order with distinct keys:
  \<open>d.get(k)\<close> is \<^term>\<open>map_of d k\<close>, \<open>d[k] = v\<close> is \<^term>\<open>AList.update k v d\<close> (an
  existing key keeps its position, a new key is appended), \<open>list(d.keys())\<close> is
  \<^term>\<open>map fst d\<close>.
\<close>

datatype pyval = PyFloat real | PyInt int | PyStr string

type_synonym pydict = "(string \<times> pyval) list"

datatype error = ValueError string | KeyError string | TypeError

text \<open>\<open>x > m\<close> for a dictionary value \<open>x\<close> and a float \<open>m\<close>; a string operand raises TypeError.\<close>

fun py_gt :: "pyval \<Rightarrow> real \<Rightarrow> bool option" where
  "py_gt (PyFloat x) m = Some (x > m)"
| "py_gt (PyInt i) m = Some (real_of_int i > m)"
| "py_gt (PyStr s) m = None"

text \<open>\<open>str(b)\<close> for a bool.\<close>

definition py_str_bool :: "bool \<Rightarrow> string" where
  "py_str_bool b = (if b then ''True'' else ''False'')"

section \<open>Float arithmetic\<close>

text \<open>
  A Python float is an IEEE 754 binary64 number: a significand of 53 bits and an exponent
  from -1022 to 1023. An arithmetic result is the representable number nearest to the exact
  result, a tie going to the one with the even significand, and is infinite when that
  number is beyond the largest float.

  \<open>round_half_even\<close> rounds a real to the nearest integer, a tie going to the even one.
\<close>

definition round_half_even :: "real \<Rightarrow> int" where
  "round_half_even x =
     (let f = \<lfloor>x\<rfloor>; d = x - of_int f
      in if d < 1 / 2 then f else if 1 / 2 < d then f + 1 else if even f then f else f + 1)"

text \<open>
  \<open>binade n a\<close> searches the exponents \<open>n - 1022, ..., -1021\<close> downwards for the first
  \<open>e\<close> with \<open>2 powi e \<le> a\<close> and gives -1022 when there is none. So \<open>float_exponent x\<close> is the
  exponent of \<open>x\<close> kept within the range of binary64 (-1022 for zero and the subnormal
  numbers), and \<open>float_quantum x\<close> is the distance between neighbouring floats around \<open>x\<close>.
\<close>

fun binade :: "nat \<Rightarrow> real \<Rightarrow> int" where
  "binade 0 a = - 1022"
| "binade (Suc n) a = (if 2 powi (int n - 1021) \<le> a then int n - 1021 else binade n a)"

definition float_exponent :: "real \<Rightarrow> int" where
  "float_exponent x = binade 2045 \<bar>x\<bar>"

definition float_quantum :: "real \<Rightarrow> real" where
  "float_quantum x = 2 powi (float_exponent x - 52)"

definition nearest_double :: "real \<Rightarrow> real" where
  "nearest_double x = of_int (round_half_even (x / float_quantum x)) * float_quantum x"

text \<open>
  The result of a float operation on finite operands: a finite float or an infinity. The
  operations the program applies to finite floats never give \<open>nan\<close>.
\<close>

datatype float_result = Finite real | PosInf | NegInf

definition to_double :: "real \<Rightarrow> float_result" where
  "to_double x =
     (let y = nearest_double x
      in if 2 ^ 1024 \<le> y then PosInf else if y \<le> - (2 ^ 1024) then NegInf else Finite y)"

text \<open>\<open>x + y\<close> and \<open>x * y\<close> on finite floats.\<close>

definition float_add :: "real \<Rightarrow> real \<Rightarrow> float_result" where
  "float_add x y = to_double (x + y)"

definition float_mul :: "real \<Rightarrow> real \<Rightarrow> float_result" where
  "float_mul x y = to_double (x * y)"

text \<open>
  \<open>round(x, ndigits)\<close> on a finite float, for \<open>0 \<le> ndigits \<le> 323\<close>: the decimal number
  with \<open>ndigits\<close> places nearest to \<open>x\<close>, a tie going to the even last digit, converted to
  the nearest float.
\<close>

definition py_round :: "real \<Rightarrow> nat \<Rightarrow> float_result" where
  "py_round x ndigits = to_double (of_int (round_half_even (x * 10 ^ ndigits)) / 10 ^ ndigits)"

section \<open>Settings (app/core/config.py)\<close>

record settings =
  app_name :: string
  debug :: bool
  api_version :: string
  max_temperature :: real

text \<open>The field defaults of class \<open>Settings\<close>, used when no environment variable is set.\<close>

definition default_settings :: settings where
  "default_settings =
     \<lparr>app_name = ''Weather API'', debug = False, api_version = ''v1'', max_temperature = 100.0\<rparr>"

section \<open>Weather service (app/services/weather_service.py)\<close>

text \<open>
  The state of a \<open>WeatherService\<close> object is its one attribute \<open>_weather_data\<close>, a
  dictionary from city names to records.
\<close>

type_synonym weather_data = "(string \<times> pydict) list"

text \<open>\<open>WeatherService.__init__\<close>: the table the singleton \<open>weather_service\<close> starts with.\<close>

definition weather_service :: weather_data where
  "weather_service =
     [(''New York'',
         [(''temp'', PyFloat 72.5), (''humidity'', PyInt 65), (''condition'', PyStr ''Partly Cloudy'')]),
      (''London'',
         [(''temp'', PyFloat 59.0), (''humidity'', PyInt 78), (''condition'', PyStr ''Rainy'')]),
      (''Tokyo'',
         [(''temp'', PyFloat 68.3), (''humidity'', PyInt 55), (''condition'', PyStr ''Sunny'')]),
      (''Sydney'',
         [(''temp'', PyFloat 77.9), (''humidity'', PyInt 60), (''condition'', PyStr ''Clear'')])]"

definition not_found_message :: "string \<Rightarrow> string" where
  "not_found_message city = ''Weather data not found for city: '' @ city"

definition warning_text :: string where
  "warning_text = ''Temperature exceeds maximum threshold!''"

text \<open>
  \<open>WeatherService.get_weather\<close>. The arguments are the settings (the module-level
  \<open>settings\<close> object), the clock reading \<open>datetime.now(timezone.utc).isoformat()\<close>, the
  table and the city. The result is the raised exception or the returned dictionary,
  together with the table after the call.

  \<open>weather\<close> is the dictionary object stored in the table, not a copy: the three
  assignments write into the stored record, so the table after the call holds the
  annotated record under \<open>city\<close>. \<open>not weather\<close> is true for \<open>None\<close> and for an empty
  dictionary. Every exception is raised before the first assignment.
\<close>

definition get_weather ::
  "settings \<Rightarrow> string \<Rightarrow> weather_data \<Rightarrow> string \<Rightarrow> (error + pydict) \<times> weather_data" where
  "get_weather cfg now tbl city =
     (case map_of tbl city of
        None \<Rightarrow> (Inl (ValueError (not_found_message city)), tbl)
      | Some weather \<Rightarrow>
          if weather = [] then (Inl (ValueError (not_found_message city)), tbl)
          else
            (case map_of weather ''temp'' of
               None \<Rightarrow> (Inl (KeyError ''temp''), tbl)
             | Some t \<Rightarrow>
                 (case py_gt t (max_temperature cfg) of
                    None \<Rightarrow> (Inl TypeError, tbl)
                  | Some exceeds \<Rightarrow>
                      let weather1 =
                            (if exceeds then AList.update ''warning'' (PyStr warning_text) weather
                             else weather);
                          weather2 = AList.update ''timestamp'' (PyStr now) weather1;
                          weather3 = AList.update ''city'' (PyStr city) weather2
                      in (Inr weather3, AList.update city weather3 tbl))))"

text \<open>\<open>WeatherService.get_available_cities\<close>.\<close>

definition get_available_cities :: "weather_data \<Rightarrow> string list" where
  "get_available_cities tbl = map fst tbl"

text \<open>
  \<open>WeatherService.calculate_heat_index\<close>, on finite floats; it reads no attribute of the
  service. A sum with an infinite operand is that infinity, and \<open>round\<close> returns an
  infinity unchanged.
\<close>

definition calculate_heat_index :: "real \<Rightarrow> real \<Rightarrow> float_result" where
  "calculate_heat_index temperature humidity =
     (case float_mul 0.5 humidity of
        Finite product \<Rightarrow>
          (case float_add temperature product of
             Finite heat_index \<Rightarrow> py_round heat_index 2
           | overflow \<Rightarrow> overflow)
      | overflow \<Rightarrow> overflow)"

text \<open>
  The heat index as the specification words it: the exact value of \<open>t + 0.5 * h\<close> rounded
  to two decimal places, by one of the two rounding rules it names.
\<close>

definition spec_round_half_away :: "real \<Rightarrow> int" where
  "spec_round_half_away x = (if 0 \<le> x then \<lfloor>x + 1 / 2\<rfloor> else \<lceil>x - 1 / 2\<rceil>)"

definition spec_heat_index :: "(real \<Rightarrow> int) \<Rightarrow> real \<Rightarrow> real \<Rightarrow> real" where
  "spec_heat_index rnd t h = of_int (rnd (100 * (t + 0.5 * h))) / 100"

section \<open>HTTP routes (app/api/routes/weather.py)\<close>

text \<open>
  A response is a status code and a JSON body. A 422 body lists, for each rejected query
  parameter, its location and the violated constraint. An exception that no handler
  catches becomes a 500 response.
\<close>

datatype validation_error = Validation_error (loc: "string list") (kind: string)

datatype http_body =
    Json_dict pydict
  | Json_float_dict "(string \<times> float_result) list"
  | Json_str_dict "(string \<times> string) list"
  | Json_list "string list"
  | Detail string
  | Validation_detail "validation_error list"
  | Server_error

record http_response =
  status_code :: nat
  body :: http_body

text \<open>The route \<open>GET /weather/\<close>: \<open>ValueError\<close> is the only exception it handles.\<close>

definition route_get_weather ::
  "settings \<Rightarrow> string \<Rightarrow> weather_data \<Rightarrow> string \<Rightarrow> http_response \<times> weather_data" where
  "route_get_weather cfg now tbl city =
     (case get_weather cfg now tbl city of
        (Inr weather_data, tbl') \<Rightarrow> (\<lparr>status_code = 200, body = Json_dict weather_data\<rparr>, tbl')
      | (Inl (ValueError e), tbl') \<Rightarrow> (\<lparr>status_code = 404, body = Detail e\<rparr>, tbl')
      | (Inl _, tbl') \<Rightarrow> (\<lparr>status_code = 500, body = Server_error\<rparr>, tbl'))"

text \<open>The route \<open>GET /weather/cities\<close>.\<close>

definition route_get_available_cities :: "weather_data \<Rightarrow> http_response" where
  "route_get_available_cities tbl =
     \<lparr>status_code = 200, body = Json_list (get_available_cities tbl)\<rparr>"

text \<open>
  The declaration \<open>Query(..., ge=lo, le=hi)\<close> of a float parameter: the framework checks
  the bounds before the route body runs and reports the violated one.
\<close>

definition query_ge_le :: "string \<Rightarrow> real \<Rightarrow> real \<Rightarrow> real \<Rightarrow> validation_error list" where
  "query_ge_le name lo hi v =
     (if v < lo then [Validation_error [''query'', name] ''greater_than_equal'']
      else if hi < v then [Validation_error [''query'', name] ''less_than_equal'']
      else [])"

text \<open>
  The route \<open>GET /weather/heat-index\<close>, on parameters that parsed as finite floats. The
  body is the dictionary the route function returns.
\<close>

definition route_calculate_heat_index :: "real \<Rightarrow> real \<Rightarrow> http_response" where
  "route_calculate_heat_index temperature humidity =
     (let errors = query_ge_le ''temperature'' (- 50) 150 temperature
                 @ query_ge_le ''humidity'' 0 100 humidity
      in if errors \<noteq> [] then \<lparr>status_code = 422, body = Validation_detail errors\<rparr>
         else
           let heat_index = calculate_heat_index temperature humidity
           in \<lparr>status_code = 200,
               body = Json_float_dict [(''temperature'', Finite temperature),
                                       (''humidity'', Finite humidity),
                                       (''heat_index'', heat_index)]\<rparr>)"

text \<open>The route \<open>GET /weather/info\<close>.\<close>

definition get_api_info :: "settings \<Rightarrow> http_response" where
  "get_api_info cfg =
     \<lparr>status_code = 200,
      body = Json_str_dict [(''app_name'', app_name cfg),
                            (''version'', api_version cfg),
                            (''debug_mode'', py_str_bool (debug cfg))]\<rparr>"

section \<open>Sequences of service calls\<close>

text \<open>
  The process holds one service object and one settings object; requests call the three
  methods in any order. A call of \<open>get_weather\<close> comes with its argument and the clock
  reading it observes. \<open>run\<close> gives the table after a sequence of calls, whether or not
  the calls raise.
\<close>

datatype call =
    Get_weather string string
  | Get_available_cities
  | Calculate_heat_index real real

fun step :: "settings \<Rightarrow> weather_data \<Rightarrow> call \<Rightarrow> weather_data" where
  "step cfg tbl (Get_weather city now) = snd (get_weather cfg now tbl city)"
| "step cfg tbl Get_available_cities = tbl"
| "step cfg tbl (Calculate_heat_index t h) = tbl"

definition run :: "settings \<Rightarrow> call list \<Rightarrow> weather_data" where
  "run cfg calls = foldl (step cfg) weather_service calls"


section \<open>Invariant of the table\<close>

text \<open>
  \<open>annotate\<close> is the record \<open>get_weather\<close> leaves in the table and returns: the stored
  record with the warning (when the temperature exceeds the threshold), the timestamp and
  the city written into it, in this order.
\<close>

definition annotate :: "bool \<Rightarrow> string \<Rightarrow> string \<Rightarrow> pydict \<Rightarrow> pydict" where
  "annotate exceeds now city weather =
     AList.update ''city'' (PyStr city)
       (AList.update ''timestamp'' (PyStr now)
          (if exceeds then AList.update ''warning'' (PyStr warning_text) weather else weather))"

text \<open>
  A stored record \<open>r\<close> agrees with the seed record it started from on the three seed
  fields, the seed temperature is a float, and \<open>r\<close> carries a warning only if that
  temperature exceeds the threshold of the settings.
\<close>

definition record_ok :: "settings \<Rightarrow> pydict \<Rightarrow> pydict \<Rightarrow> bool" where
  "record_ok cfg seed r \<longleftrightarrow>
     map_of r ''temp'' = map_of seed ''temp'' \<and>
     map_of r ''humidity'' = map_of seed ''humidity'' \<and>
     map_of r ''condition'' = map_of seed ''condition'' \<and>
     (case map_of seed ''temp'' of
        Some (PyFloat t) \<Rightarrow>
          (case map_of r ''warning'' of
             None \<Rightarrow> True
           | Some w \<Rightarrow> w = PyStr warning_text \<and> t > max_temperature cfg)
      | _ \<Rightarrow> False)"

text \<open>The table has the seed cities in the seed order, each with a record as above.\<close>

definition table_ok :: "settings \<Rightarrow> weather_data \<Rightarrow> bool" where
  "table_ok cfg tbl \<longleftrightarrow>
     list_all2 (\<lambda>(c, seed) (c', r). c' = c \<and> record_ok cfg seed r) weather_service tbl"

section \<open>Lemmas about \<open>get_weather\<close>\<close>

lemma map_of_annotate:
  "map_of (annotate ex now city w) =
     (if ex then (map_of w)(''warning'' \<mapsto> PyStr warning_text,
                            ''timestamp'' \<mapsto> PyStr now, ''city'' \<mapsto> PyStr city)
      else (map_of w)(''timestamp'' \<mapsto> PyStr now, ''city'' \<mapsto> PyStr city))"
  by (simp add: annotate_def update_conv')

text \<open>A lookup that finds a record with a float temperature succeeds.\<close>

lemma get_weather_success:
  assumes "map_of tbl city = Some w" and "map_of w ''temp'' = Some (PyFloat t)"
  shows "get_weather cfg now tbl city =
           (Inr (annotate (t > max_temperature cfg) now city w),
            AList.update city (annotate (t > max_temperature cfg) now city w) tbl)"
proof -
  from assms(2) have "w \<noteq> []" by auto
  with assms show ?thesis
    by (simp add: get_weather_def annotate_def Let_def)
qed

lemma get_weather_error_frame:
  "fst (get_weather cfg now tbl city) = Inl e \<Longrightarrow> snd (get_weather cfg now tbl city) = tbl"
  by (auto simp: get_weather_def Let_def split: option.splits if_splits)

lemma get_weather_keys: "map fst (snd (get_weather cfg now tbl city)) = map fst tbl"
proof (cases "fst (get_weather cfg now tbl city)")
  case (Inl e)
  then show ?thesis by (simp add: get_weather_error_frame)
next
  case (Inr r)
  then obtain w where w: "map_of tbl city = Some w"
    by (auto simp: get_weather_def split: option.splits)
  then have "city \<in> set (map fst tbl)"
    by (metis map_of_eq_None_iff option.distinct(1) set_map)
  with Inr show ?thesis
    by (auto simp: get_weather_def Let_def update_keys split: option.splits if_splits)
qed

text \<open>Annotating an annotated record again only replaces the timestamp.\<close>

lemma annotate_idem:
  "annotate ex now2 city (annotate ex now1 city w) =
     AList.update ''timestamp'' (PyStr now2) (annotate ex now1 city w)"
proof -
  let ?r = "annotate ex now1 city w"
  have 1: "(if ex then AList.update ''warning'' (PyStr warning_text) ?r else ?r) = ?r"
    by (simp add: update_triv map_of_annotate)
  have 2: "AList.update ''city'' (PyStr city) (AList.update ''timestamp'' (PyStr now2) ?r)
             = AList.update ''timestamp'' (PyStr now2) ?r"
    by (rule update_triv) (simp add: update_conv' map_of_annotate)
  show ?thesis
    unfolding annotate_def[of ex now2 city ?r] 1 2 ..
qed

section \<open>The invariant holds after every sequence of calls\<close>

lemma record_ok_annotate:
  assumes "record_ok cfg seed r" and "map_of r ''temp'' = Some (PyFloat t)"
  shows "record_ok cfg seed (annotate (t > max_temperature cfg) now city r)"
  using assms
  by (auto simp: record_ok_def map_of_annotate split: option.splits pyval.splits)

lemma record_ok_temp:
  "record_ok cfg seed r \<Longrightarrow> \<exists>t. map_of r ''temp'' = Some (PyFloat t)"
  by (auto simp: record_ok_def split: option.splits pyval.splits)

lemma list_all2_update:
  assumes "list_all2 (\<lambda>(c, s) (c', r). c' = c \<and> Q s r) ws tbl"
    and "map_of tbl city = Some r" and "\<And>s. Q s r \<Longrightarrow> Q s r'"
  shows "list_all2 (\<lambda>(c, s) (c', r). c' = c \<and> Q s r) ws (AList.update city r' tbl)"
  using assms(1,2)
proof (induction rule: list_all2_induct)
  case Nil
  then show ?case by simp
next
  case (Cons x xs y ys)
  then show ?case using assms(3)
    by (cases x; cases y) (auto split: if_splits)
qed

lemma list_all2_lookup:
  assumes "list_all2 (\<lambda>(c, s) (c', r). c' = c \<and> Q s r) ws tbl"
  shows "rel_option Q (map_of ws city) (map_of tbl city)"
  using assms
  by (induction rule: list_all2_induct) auto

lemma list_all2_keys:
  assumes "list_all2 (\<lambda>(c, s) (c', r). c' = c \<and> Q s r) ws tbl"
  shows "map fst tbl = map fst ws"
  using assms
  by (induction rule: list_all2_induct) auto

lemma table_ok_get_weather:
  assumes "table_ok cfg tbl"
  shows "table_ok cfg (snd (get_weather cfg now tbl city))"
proof (cases "map_of tbl city")
  case None
  then show ?thesis using assms by (simp add: get_weather_def)
next
  case (Some r)
  with list_all2_lookup[OF assms[unfolded table_ok_def], of city]
  obtain seed where "record_ok cfg seed r"
    by (auto simp: option_rel_Some2)
  then obtain t where t: "map_of r ''temp'' = Some (PyFloat t)"
    using record_ok_temp by blast
  have "list_all2 (\<lambda>(c, s) (c', r). c' = c \<and> record_ok cfg s r) weather_service
          (AList.update city (annotate (t > max_temperature cfg) now city r) tbl)"
    using assms[unfolded table_ok_def] Some
    by (rule list_all2_update) (simp add: record_ok_annotate t)
  then show ?thesis
    by (simp add: get_weather_success[OF Some t] table_ok_def)
qed

lemma table_ok_init: "table_ok cfg weather_service"
  by (simp add: table_ok_def weather_service_def record_ok_def)

lemma table_ok_step: "table_ok cfg tbl \<Longrightarrow> table_ok cfg (step cfg tbl c)"
  by (cases c) (simp_all add: table_ok_get_weather)

lemma table_ok_foldl: "table_ok cfg tbl \<Longrightarrow> table_ok cfg (foldl (step cfg) tbl calls)"
  by (induction calls arbitrary: tbl) (simp_all add: table_ok_step)

lemma table_ok_run: "table_ok cfg (run cfg calls)"
  by (simp add: run_def table_ok_foldl table_ok_init)

lemma run_keys: "map fst (run cfg calls) = map fst weather_service"
  using table_ok_run[of cfg calls] unfolding table_ok_def by (rule list_all2_keys)

lemma seed_keys: "map fst weather_service = [''New York'', ''London'', ''Tokyo'', ''Sydney'']"
  by (simp add: weather_service_def)

lemma run_lookup:
  "rel_option (record_ok cfg) (map_of weather_service city) (map_of (run cfg calls) city)"
  using table_ok_run[of cfg calls] unfolding table_ok_def by (rule list_all2_lookup)

lemma reachable_stored:
  assumes "map_of (run cfg calls) city = Some stored"
  shows "\<exists>seed t. map_of weather_service city = Some seed \<and> record_ok cfg seed stored \<and>
           map_of stored ''temp'' = Some (PyFloat t)"
proof -
  from run_lookup[of cfg city calls] assms
  obtain seed where "map_of weather_service city = Some seed" "record_ok cfg seed stored"
    by (auto simp: option_rel_Some2)
  then show ?thesis using record_ok_temp by blast
qed

lemma seed_stored:
  assumes "map_of weather_service city = Some seed"
  shows "\<exists>stored. map_of (run cfg calls) city = Some stored \<and> record_ok cfg seed stored"
  using run_lookup[of cfg city calls] assms by (auto simp: option_rel_Some1)

text \<open>Evaluation of the model at the inputs used below.\<close>

lemma run_Nil: "run cfg [] = weather_service"
  by (simp add: run_def)

section \<open>Lemmas about float rounding\<close>

lemma pow2_less_D: "(2::real) powi m < 2 powi n \<Longrightarrow> m < n"
proof (rule ccontr)
  assume a: "(2::real) powi m < 2 powi n" and "\<not> m < n"
  then have "n \<le> m" by simp
  then have "(2::real) powi n \<le> 2 powi m" by (rule power_int_increasing) simp
  with a show False by simp
qed

lemma binade_eq:
  "2 powi k \<le> a \<Longrightarrow> a < 2 powi (k + 1) \<Longrightarrow> - 1022 \<le> k \<Longrightarrow> k \<le> int n - 1022
     \<Longrightarrow> binade n a = k"
proof (induction n)
  case 0
  then show ?case by simp
next
  case (Suc n)
  show ?case
  proof (cases "2 powi (int n - 1021) \<le> a")
    case True
    with Suc.prems(2) have "(2::real) powi (int n - 1021) < 2 powi (k + 1)" by linarith
    then have "int n - 1021 < k + 1"
      by (rule pow2_less_D)
    with Suc.prems(4) have "k = int n - 1021" by simp
    with True show ?thesis by simp
  next
    case False
    with Suc.prems(1) have "(2::real) powi k < 2 powi (int n - 1021)" by linarith
    then have "k < int n - 1021"
      by (rule pow2_less_D)
    then have "k \<le> int n - 1022" by simp
    with Suc False show ?thesis by simp
  qed
qed

lemma binade_low: "a < 2 powi (- 1022) \<Longrightarrow> binade n a = - 1022"
proof (induction n)
  case 0
  then show ?case by simp
next
  case (Suc n)
  have "(2::real) powi (- 1022) \<le> 2 powi (int n - 1021)"
    by (rule power_int_increasing) simp_all
  with Suc show ?case by simp
qed

lemma binade_range: "- 1022 \<le> binade n a \<and> binade n a \<le> int n - 1022"
  by (induction n) auto

lemma binade_le: "a < 2 powi (k + 1) \<Longrightarrow> - 1022 \<le> k \<Longrightarrow> binade n a \<le> k"
proof (induction n)
  case 0
  then show ?case by simp
next
  case (Suc n)
  show ?case
  proof (cases "2 powi (int n - 1021) \<le> a")
    case True
    with Suc.prems(1) have "(2::real) powi (int n - 1021) < 2 powi (k + 1)" by linarith
    then have "int n - 1021 < k + 1"
      by (rule pow2_less_D)
    with True show ?thesis by simp
  next
    case False
    with Suc show ?thesis by simp
  qed
qed

lemma float_exponent_eq:
  assumes "2 powi k \<le> \<bar>x\<bar>" "\<bar>x\<bar> < 2 powi (k + 1)" "- 1022 \<le> k" "k \<le> 1023"
  shows "float_exponent x = k"
  unfolding float_exponent_def using assms by (intro binade_eq) simp_all


lemma round_half_even_error: "\<bar>of_int (round_half_even y) - y\<bar> \<le> 1 / 2"
  unfolding round_half_even_def Let_def by (auto simp: abs_le_iff)

lemma round_half_even_tie:
  assumes "\<bar>of_int (round_half_even y) - y\<bar> = 1 / 2"
  shows "even (round_half_even y)"
proof -
  have "y - of_int \<lfloor>y\<rfloor> = 1 / 2"
    using assms unfolding round_half_even_def Let_def
    by (auto split: if_splits)
  then show ?thesis
    unfolding round_half_even_def Let_def by simp
qed

lemma float_quantum_pos: "0 < float_quantum x"
  by (simp add: float_quantum_def)

lemma nearest_double_error: "\<bar>nearest_double y - y\<bar> \<le> float_quantum y / 2"
proof -
  let ?q = "float_quantum y"
  have q: "0 < ?q" by (rule float_quantum_pos)
  have "nearest_double y - y = (of_int (round_half_even (y / ?q)) - y / ?q) * ?q"
    using q by (simp add: nearest_double_def algebra_simps)
  then have "\<bar>nearest_double y - y\<bar> = \<bar>of_int (round_half_even (y / ?q)) - y / ?q\<bar> * ?q"
    using q by (simp add: abs_mult)
  also have "\<dots> \<le> (1 / 2) * ?q"
    using q round_half_even_error[of "y / ?q"] by (intro mult_right_mono) simp_all
  finally show ?thesis by simp
qed

lemma float_quantum_le:
  assumes "\<bar>y\<bar> < 2 powi (k + 1)" "- 1022 \<le> k"
  shows "float_quantum y \<le> 2 powi (k - 52)"
proof -
  have "float_exponent y \<le> k"
    unfolding float_exponent_def using assms by (rule binade_le)
  then show ?thesis
    unfolding float_quantum_def by (intro power_int_increasing) simp_all
qed

lemma nearest_double_small:
  assumes "\<bar>y\<bar> < 256"
  shows "\<bar>nearest_double y - y\<bar> \<le> 1 / 2 ^ 46"
proof -
  have "float_quantum y \<le> 2 powi (7 - 52)"
    by (rule float_quantum_le) (use assms in simp_all)
  then have "float_quantum y \<le> 1 / 2 ^ 45" by (simp add: power_int_minus)
  with nearest_double_error[of y] show ?thesis by simp
qed

lemma to_double_small:
  assumes "\<bar>y\<bar> < 256"
  shows "to_double y = Finite (nearest_double y)"
proof -
  have "(1::real) / 2 ^ 46 \<le> 1" by simp
  with nearest_double_small[OF assms] assms have "\<bar>nearest_double y\<bar> < 257" by linarith
  moreover have "(257::real) < 2 ^ 1024" by simp
  ultimately show ?thesis by (simp add: to_double_def Let_def abs_less_iff)
qed


lemma to_double_eval:
  assumes "2 powi k \<le> \<bar>x\<bar>" "\<bar>x\<bar> < 2 powi (k + 1)" "- 1022 \<le> k" "k \<le> 1023"
    and "y = of_int (round_half_even (x / 2 powi (k - 52))) * 2 powi (k - 52)"
    and "\<bar>y\<bar> < 2 ^ 1024"
  shows "to_double x = Finite y"
proof -
  have "float_exponent x = k" using assms(1-4) by (rule float_exponent_eq)
  then have "nearest_double x = y"
    by (simp add: nearest_double_def float_quantum_def assms(5))
  with assms(6) show ?thesis
    by (simp add: to_double_def abs_less_iff)
qed

lemma heat_index_in_range:
  assumes "- 50 \<le> t" "t \<le> 150" "0 \<le> h" "h \<le> 100"
  shows "calculate_heat_index t h =
           Finite (nearest_double (real_of_int (round_half_even
              (100 * nearest_double (t + nearest_double (h / 2)))) / 100))"
    and "\<bar>nearest_double (real_of_int (round_half_even
              (100 * nearest_double (t + nearest_double (h / 2)))) / 100) - (t + 0.5 * h)\<bar>
           \<le> 1 / 200 + 1 / 10 ^ 12"
proof -
  define e :: real where "e = 1 / 2 ^ 46"
  have e: "e \<le> 1 / 10000000000000" by (simp add: e_def)
  define p where "p = nearest_double (0.5 * h)"
  have hp: "\<bar>0.5 * h\<bar> < 256" using assms by simp
  have p1: "float_mul 0.5 h = Finite p"
    unfolding float_mul_def p_def by (rule to_double_small[OF hp])
  have p2: "\<bar>p - h / 2\<bar> \<le> e"
    using nearest_double_small[OF hp] by (simp add: p_def e_def)
  define s where "s = nearest_double (t + p)"
  have hs: "\<bar>t + p\<bar> < 256" using assms p2 e by linarith
  have s1: "float_add t p = Finite s"
    unfolding float_add_def s_def by (rule to_double_small[OF hs])
  have s2: "\<bar>s - (t + p)\<bar> \<le> e"
    using nearest_double_small[OF hs] by (simp add: s_def e_def)
  define r where "r = real_of_int (round_half_even (s * 10 ^ 2)) / 10 ^ 2"
  define a where "a = real_of_int (round_half_even (s * 10 ^ 2)) - s * 10 ^ 2"
  have a: "\<bar>a\<bar> \<le> 1 / 2"
    unfolding a_def by (rule round_half_even_error)
  have "r - s = a / 100"
    by (simp add: r_def a_def field_simps)
  with a have r2: "\<bar>r - s\<bar> \<le> 1 / 200" by linarith
  have hr: "\<bar>r\<bar> < 256" using r2 s2 p2 e assms by linarith
  define x where "x = nearest_double r"
  have x1: "py_round s 2 = Finite x"
    unfolding py_round_def x_def r_def[symmetric] by (rule to_double_small[OF hr])
  have x2: "\<bar>x - r\<bar> \<le> e"
    using nearest_double_small[OF hr] by (simp add: x_def e_def)
  have 1: "calculate_heat_index t h = Finite x"
    unfolding calculate_heat_index_def p1 float_result.case s1 x1 ..
  have "\<bar>x - (t + h / 2)\<bar> \<le> 1 / 200 + 1 / 1000000000000"
    using x2 r2 s2 p2 e by linarith
  then have 2: "\<bar>x - (t + 0.5 * h)\<bar> \<le> 1 / 200 + 1 / 10 ^ 12" by simp
  have 3: "x = nearest_double (real_of_int (round_half_even
              (100 * nearest_double (t + nearest_double (h / 2)))) / 100)"
    by (simp add: x_def r_def s_def p_def mult.commute)
  from 1 show "calculate_heat_index t h =
           Finite (nearest_double (real_of_int (round_half_even
              (100 * nearest_double (t + nearest_double (h / 2)))) / 100))"
    unfolding 3 .
  from 2 show "\<bar>nearest_double (real_of_int (round_half_even
              (100 * nearest_double (t + nearest_double (h / 2)))) / 100) - (t + 0.5 * h)\<bar>
           \<le> 1 / 200 + 1 / 10 ^ 12"
    unfolding 3 .
qed

lemma heat_index_75_60: "calculate_heat_index 75 60 = Finite 105"
proof -
  have 1: "float_mul 0.5 60 = Finite 30"
    unfolding float_mul_def
    by (rule to_double_eval[where k = 4]) (simp_all add: power_int_minus round_half_even_def)
  have 2: "float_add 75 30 = Finite 105"
    unfolding float_add_def
    by (rule to_double_eval[where k = 6]) (simp_all add: power_int_minus round_half_even_def)
  have 3: "py_round 105 2 = Finite 105"
    unfolding py_round_def
    by (rule to_double_eval[where k = 6]) (simp_all add: power_int_minus round_half_even_def)
  show ?thesis
    unfolding calculate_heat_index_def 1 float_result.case 2 3 ..
qed


lemma to_double_0: "to_double 0 = Finite 0"
  by (simp add: to_double_def nearest_double_def round_half_even_def)

lemma int_near:
  assumes "\<bar>real_of_int k - real_of_int n\<bar> < 1"
  shows "k = n"
proof -
  from assms have "\<bar>real_of_int (k - n)\<bar> < 1" by simp
  then have "\<bar>k - n\<bar> < 1" by linarith
  then show ?thesis by simp
qed

lemma to_double_12: "to_double (12 / 100) = Finite (8646911284551352 / 2 ^ 56)"
  by (rule to_double_eval[where k = "- 4"]) (simp_all add: power_int_minus round_half_even_def)

lemma to_double_13: "to_double (13 / 100) = Finite (4683743612465316 / 2 ^ 55)"
  by (rule to_double_eval[where k = "- 3"]) (simp_all add: power_int_minus round_half_even_def)

section \<open>The claims\<close>

text \<open>
  Claim C1, as stated, fails: \<open>get_weather\<close> does not work on a copy. After one call for
  London on the initial table, the record stored for London holds the timestamp and the
  city that the call wrote.
\<close>

theorem get_weather_no_copy_counterexample:
  "map_of weather_service ''London'' =
     Some [(''temp'', PyFloat 59.0), (''humidity'', PyInt 78), (''condition'', PyStr ''Rainy'')] \<and>
   map_of (snd (get_weather default_settings ''2024-05-01T12:00:00+00:00'' weather_service ''London''))
      ''London'' =
     Some [(''temp'', PyFloat 59.0), (''humidity'', PyInt 78), (''condition'', PyStr ''Rainy''),
           (''timestamp'', PyStr ''2024-05-01T12:00:00+00:00''), (''city'', PyStr ''London'')]"
  by (simp add: get_weather_def weather_service_def default_settings_def Let_def)

text \<open>
  Claim C1, amended. For every city present in the table after any sequence of calls,
  \<open>get_weather\<close> succeeds and changes the table: the record it returns is the stored
  record with the warning (exactly when the stored temperature exceeds the threshold), the
  timestamp and the city written into it, and the table after the call maps the city to
  this returned record and every other city to its record as before. A second call for
  the same city, under the same settings, returns the first record with only the
  timestamp replaced, so the two records are identical in every field except
  \<open>timestamp\<close>.
\<close>

theorem get_weather_annotates_in_place:
  assumes "map_of (run cfg calls) city = Some stored"
  shows "\<exists>t r. map_of stored ''temp'' = Some (PyFloat t) \<and>
           r = AList.update ''city'' (PyStr city)
                 (AList.update ''timestamp'' (PyStr now1)
                    (if t > max_temperature cfg
                     then AList.update ''warning''
                            (PyStr ''Temperature exceeds maximum threshold!'') stored
                     else stored)) \<and>
           get_weather cfg now1 (run cfg calls) city =
             (Inr r, AList.update city r (run cfg calls)) \<and>
           map_of (AList.update city r (run cfg calls)) city = Some r \<and>
           (\<forall>c. c \<noteq> city \<longrightarrow>
              map_of (AList.update city r (run cfg calls)) c = map_of (run cfg calls) c) \<and>
           map_of r ''timestamp'' = Some (PyStr now1) \<and>
           map_of r ''city'' = Some (PyStr city) \<and>
           get_weather cfg now2 (AList.update city r (run cfg calls)) city =
             (Inr (AList.update ''timestamp'' (PyStr now2) r),
              AList.update city (AList.update ''timestamp'' (PyStr now2) r) (run cfg calls))"
proof -
  from reachable_stored[OF assms] obtain t where t: "map_of stored ''temp'' = Some (PyFloat t)"
    by blast
  let ?ex = "t > max_temperature cfg"
  let ?r = "annotate ?ex now1 city stored"
  let ?tbl = "run cfg calls"
  have 0: "?r = AList.update ''city'' (PyStr city)
                 (AList.update ''timestamp'' (PyStr now1)
                    (if t > max_temperature cfg
                     then AList.update ''warning''
                            (PyStr ''Temperature exceeds maximum threshold!'') stored
                     else stored))"
    by (simp add: annotate_def warning_text_def)
  have 1: "get_weather cfg now1 ?tbl city = (Inr ?r, AList.update city ?r ?tbl)"
    by (rule get_weather_success[OF assms t])
  have 2: "map_of ?r ''timestamp'' = Some (PyStr now1)" "map_of ?r ''city'' = Some (PyStr city)"
    by (simp_all add: map_of_annotate)
  have 3: "map_of (AList.update city ?r ?tbl) city = Some ?r"
    by (simp add: update_conv')
  have 4: "map_of ?r ''temp'' = Some (PyFloat t)"
    by (simp add: map_of_annotate t)
  have 5: "get_weather cfg now2 (AList.update city ?r ?tbl) city =
             (Inr (AList.update ''timestamp'' (PyStr now2) ?r),
              AList.update city (AList.update ''timestamp'' (PyStr now2) ?r) ?tbl)"
    by (simp add: get_weather_success[OF 3 4] annotate_idem)
  have 6: "\<forall>c. c \<noteq> city \<longrightarrow> map_of (AList.update city ?r ?tbl) c = map_of ?tbl c"
    by (simp add: update_conv')
  from t 0 1 2 3 5 6 show ?thesis by blast
qed

text \<open>Claim C1, witness: two consecutive calls for London on the initial table.\<close>

theorem get_weather_annotates_in_place_witness:
  "get_weather default_settings ''12:00:01''
     (snd (get_weather default_settings ''12:00:00'' weather_service ''London'')) ''London'' =
     (Inr [(''temp'', PyFloat 59.0), (''humidity'', PyInt 78), (''condition'', PyStr ''Rainy''),
           (''timestamp'', PyStr ''12:00:01''), (''city'', PyStr ''London'')],
      AList.update ''London''
        [(''temp'', PyFloat 59.0), (''humidity'', PyInt 78), (''condition'', PyStr ''Rainy''),
         (''timestamp'', PyStr ''12:00:01''), (''city'', PyStr ''London'')] weather_service)"
proof -
  let ?r1 = "[(''temp'', PyFloat 59.0), (''humidity'', PyInt 78), (''condition'', PyStr ''Rainy''),
              (''timestamp'', PyStr ''12:00:00''), (''city'', PyStr ''London'')]"
  have h: "map_of (run default_settings []) ''London'' =
             Some [(''temp'', PyFloat 59.0), (''humidity'', PyInt 78), (''condition'', PyStr ''Rainy'')]"
    by (simp add: run_Nil weather_service_def)
  have e: "get_weather default_settings ''12:00:00'' weather_service ''London'' =
             (Inr ?r1, AList.update ''London'' ?r1 weather_service)"
    by (simp add: get_weather_def weather_service_def default_settings_def Let_def)
  from get_weather_annotates_in_place[OF h, of "''12:00:00''" "''12:00:01''"]
  obtain t r where
    a: "get_weather default_settings ''12:00:00'' weather_service ''London'' =
          (Inr r, AList.update ''London'' r weather_service)" and
    b: "get_weather default_settings ''12:00:01'' (AList.update ''London'' r weather_service) ''London'' =
          (Inr (AList.update ''timestamp'' (PyStr ''12:00:01'') r),
           AList.update ''London'' (AList.update ''timestamp'' (PyStr ''12:00:01'') r) weather_service)"
    unfolding run_Nil by blast
  from a e have r: "r = ?r1" by simp
  show ?thesis using b unfolding r e by simp
qed

text \<open>
  Claim C2, as stated, fails: under the default settings the \<open>debug_mode\<close> field is
  \<open>str(False)\<close>, the string \<open>False\<close> with a capital letter, which is neither \<open>true\<close> nor
  \<open>false\<close>.
\<close>

theorem get_api_info_lowercase_counterexample:
  "get_api_info default_settings =
     \<lparr>status_code = 200,
      body = Json_str_dict [(''app_name'', ''Weather API''), (''version'', ''v1''),
                            (''debug_mode'', ''False'')]\<rparr> \<and>
   ''False'' \<noteq> ''true'' \<and> ''False'' \<noteq> ''false''"
  by (simp add: get_api_info_def default_settings_def py_str_bool_def)

text \<open>
  Claim C2, amended. The info endpoint always returns a 200 response with the application
  name, the version and a \<open>debug_mode\<close> field that is the string \<open>True\<close> or the string
  \<open>False\<close>, Python's rendering of the debug setting.
\<close>

theorem get_api_info_debug_mode:
  "get_api_info cfg =
     \<lparr>status_code = 200,
      body = Json_str_dict [(''app_name'', app_name cfg), (''version'', api_version cfg),
                            (''debug_mode'', if debug cfg then ''True'' else ''False'')]\<rparr>"
  by (simp add: get_api_info_def py_str_bool_def)

text \<open>
  Claim C3. For every city present in the table after any sequence of calls under the
  settings \<open>cfg\<close>, \<open>get_weather\<close> succeeds and the returned record has the \<open>warning\<close>
  field if and only if the stored temperature is strictly greater than
  \<open>max_temperature cfg\<close>; a warning that is present is the fixed advisory string.
\<close>

theorem get_weather_warning_iff:
  assumes "map_of (run cfg calls) city = Some stored"
  shows "\<exists>t r tbl'. map_of stored ''temp'' = Some (PyFloat t) \<and>
           get_weather cfg now (run cfg calls) city = (Inr r, tbl') \<and>
           (''warning'' \<in> dom (map_of r) \<longleftrightarrow> t > max_temperature cfg) \<and>
           (''warning'' \<in> dom (map_of r) \<longrightarrow>
              map_of r ''warning'' = Some (PyStr ''Temperature exceeds maximum threshold!''))"
proof -
  from reachable_stored[OF assms] obtain seed t where
    ok: "record_ok cfg seed stored" and t: "map_of stored ''temp'' = Some (PyFloat t)"
    by blast
  let ?r = "annotate (t > max_temperature cfg) now city stored"
  have 1: "get_weather cfg now (run cfg calls) city = (Inr ?r, AList.update city ?r (run cfg calls))"
    by (rule get_weather_success[OF assms t])
  have 2: "map_of ?r ''warning'' =
             (if t > max_temperature cfg then Some (PyStr warning_text) else None)"
    using ok t by (auto simp: map_of_annotate record_ok_def split: option.splits pyval.splits)
  have 3: "(''warning'' \<in> dom (map_of ?r) \<longleftrightarrow> t > max_temperature cfg) \<and>
           (''warning'' \<in> dom (map_of ?r) \<longrightarrow>
              map_of ?r ''warning'' = Some (PyStr ''Temperature exceeds maximum threshold!''))"
    using 2 by (auto simp: warning_text_def dom_def split: if_splits)
  from t 1 3 show ?thesis by blast
qed

text \<open>
  Claim C3, witness: the default threshold is 100 and Sydney (77.9) gets no warning; with
  the threshold at 70 it gets the advisory string.
\<close>

theorem get_weather_warning_iff_witness:
  "max_temperature default_settings = 100 \<and>
   (\<exists>r tbl'. get_weather default_settings ''12:00:00'' weather_service ''Sydney'' = (Inr r, tbl') \<and>
      ''warning'' \<notin> dom (map_of r)) \<and>
   (\<exists>r tbl'. get_weather (default_settings\<lparr>max_temperature := 70\<rparr>) ''12:00:00''
                weather_service ''Sydney'' = (Inr r, tbl') \<and>
      map_of r ''warning'' = Some (PyStr ''Temperature exceeds maximum threshold!''))"
proof -
  let ?hot = "default_settings\<lparr>max_temperature := 70\<rparr>"
  let ?seed = "[(''temp'', PyFloat 77.9), (''humidity'', PyInt 60), (''condition'', PyStr ''Clear'')]"
  have h1: "map_of (run default_settings []) ''Sydney'' = Some ?seed"
    by (simp add: run_Nil weather_service_def)
  have h2: "map_of (run ?hot []) ''Sydney'' = Some ?seed"
    by (simp add: run_Nil weather_service_def)
  have m1: "max_temperature default_settings = 100" and m2: "max_temperature ?hot = 70"
    by (simp_all add: default_settings_def)
  from get_weather_warning_iff[OF h1, of "''12:00:00''"]
  have c1: "\<exists>r tbl'. get_weather default_settings ''12:00:00'' weather_service ''Sydney'' = (Inr r, tbl') \<and>
      ''warning'' \<notin> dom (map_of r)"
    unfolding run_Nil m1 by auto
  from get_weather_warning_iff[OF h2, of "''12:00:00''"]
  have c2: "\<exists>r tbl'. get_weather ?hot ''12:00:00'' weather_service ''Sydney'' = (Inr r, tbl') \<and>
      map_of r ''warning'' = Some (PyStr ''Temperature exceeds maximum threshold!'')"
    unfolding run_Nil m2 by auto
  from m1 c1 c2 show ?thesis by blast
qed

text \<open>
  Claim C4. For every city that is not a key of the table, \<open>get_weather\<close> raises
  \<open>ValueError\<close> with the message \<open>Weather data not found for city: \<close> followed by the
  city, and the route answers 404 with that message as the detail.
\<close>

theorem get_weather_not_found:
  assumes "map_of tbl city = None"
  shows "get_weather cfg now tbl city =
           (Inl (ValueError (''Weather data not found for city: '' @ city)), tbl) \<and>
         route_get_weather cfg now tbl city =
           (\<lparr>status_code = 404, body = Detail (''Weather data not found for city: '' @ city)\<rparr>, tbl)"
  using assms by (simp add: get_weather_def route_get_weather_def not_found_message_def)

text \<open>Claim C4, witness: the city \<open>InvalidCity\<close> on the initial table.\<close>

theorem get_weather_not_found_witness:
  "map_of weather_service ''InvalidCity'' = None \<and>
   get_weather default_settings ''12:00:00'' weather_service ''InvalidCity'' =
     (Inl (ValueError ''Weather data not found for city: InvalidCity''), weather_service) \<and>
   route_get_weather default_settings ''12:00:00'' weather_service ''InvalidCity'' =
     (\<lparr>status_code = 404, body = Detail ''Weather data not found for city: InvalidCity''\<rparr>,
      weather_service)"
proof -
  have h: "map_of weather_service ''InvalidCity'' = None"
    by (simp add: weather_service_def)
  from get_weather_not_found[OF h, of default_settings "''12:00:00''"] h
  show ?thesis by simp
qed

text \<open>
  Claim C5, as stated, fails. At \<open>t = 0.125\<close> and \<open>h = 2 ^ -60\<close> the float sum
  \<open>t + 0.5 * h\<close> is \<open>0.125\<close>, which \<open>round\<close> takes to the float nearest \<open>0.12\<close>, a number
  below \<open>0.125\<close>. The exact sum lies above \<open>0.125\<close>, so rounded to two places it is
  \<open>0.13\<close> under either rule, and the float nearest \<open>0.13\<close> is above \<open>0.125\<close>.
\<close>

theorem calculate_heat_index_exact_sum_counterexample:
  "calculate_heat_index (1 / 8) (1 / 2 ^ 60) = Finite (8646911284551352 / 2 ^ 56) \<and>
   (8646911284551352 / 2 ^ 56 :: real) < 1 / 8 \<and>
   spec_heat_index round_half_even (1 / 8) (1 / 2 ^ 60) = 13 / 100 \<and>
   spec_heat_index spec_round_half_away (1 / 8) (1 / 2 ^ 60) = 13 / 100 \<and>
   to_double (13 / 100) = Finite (4683743612465316 / 2 ^ 55) \<and>
   (1 / 8 :: real) < 4683743612465316 / 2 ^ 55"
proof -
  have 1: "float_mul 0.5 (1 / 2 ^ 60) = Finite (1 / 2 ^ 61)"
    unfolding float_mul_def
    by (rule to_double_eval[where k = "- 61"]) (simp_all add: power_int_minus round_half_even_def)
  have 2: "float_add (1 / 8) (1 / 2 ^ 61) = Finite (1 / 8)"
    unfolding float_add_def
    by (rule to_double_eval[where k = "- 3"]) (simp_all add: power_int_minus round_half_even_def)
  have 3: "py_round (1 / 8) 2 = Finite (8646911284551352 / 2 ^ 56)"
    unfolding py_round_def
    by (rule to_double_eval[where k = "- 4"]) (simp_all add: power_int_minus round_half_even_def)
  have c: "calculate_heat_index (1 / 8) (1 / 2 ^ 60) = Finite (8646911284551352 / 2 ^ 56)"
    unfolding calculate_heat_index_def 1 float_result.case 2 3 ..
  have e: "spec_heat_index round_half_even (1 / 8) (1 / 2 ^ 60) = 13 / 100"
    by (simp add: spec_heat_index_def round_half_even_def)
  have a: "spec_heat_index spec_round_half_away (1 / 8) (1 / 2 ^ 60) = 13 / 100"
    by (simp add: spec_heat_index_def spec_round_half_away_def)
  have l: "(8646911284551352 / 2 ^ 56 :: real) < 1 / 8" "(1 / 8 :: real) < 4683743612465316 / 2 ^ 55"
    by simp_all
  from c l e a to_double_13 show ?thesis by simp
qed

text \<open>
  Claim C5, amended. For finite floats \<open>t\<close> and \<open>h\<close> whose product \<open>0.5 * h\<close> and sum are
  finite floats, \<open>calculate_heat_index(t, h)\<close> is the float nearest to \<open>k / 100\<close>, where
  \<open>k / 100\<close> is the two-place decimal nearest to the float sum \<open>s\<close> of \<open>t\<close> and the float
  product \<open>p\<close> of \<open>0.5\<close> and \<open>h\<close>, a tie going to the even \<open>k\<close>. The rounding is of the
  float sum, not of the exact sum. In particular \<open>calculate_heat_index(75, 60) = 105.0\<close>.
\<close>

theorem calculate_heat_index_rounds_float_sum:
  assumes "float_mul 0.5 h = Finite p" and "float_add t p = Finite s"
  shows "\<exists>k. calculate_heat_index t h = to_double (real_of_int k / 100) \<and>
             \<bar>real_of_int k - 100 * s\<bar> \<le> 1 / 2 \<and>
             (\<bar>real_of_int k - 100 * s\<bar> = 1 / 2 \<longrightarrow> even k)"
proof -
  let ?k = "round_half_even (s * 10 ^ 2)"
  have 1: "calculate_heat_index t h = to_double (real_of_int ?k / 100)"
    unfolding calculate_heat_index_def assms float_result.case py_round_def by simp
  have 2: "\<bar>real_of_int ?k - 100 * s\<bar> \<le> 1 / 2"
    using round_half_even_error[of "s * 10 ^ 2"] by (simp add: mult.commute)
  have 3: "\<bar>real_of_int ?k - 100 * s\<bar> = 1 / 2 \<longrightarrow> even ?k"
    using round_half_even_tie[of "s * 10 ^ 2"] by (simp add: mult.commute)
  from 1 2 3 show ?thesis by blast
qed

text \<open>
  Claim C5, witness: 75 and 60 give 105; the tie 0.125 goes to the even 0.12, as the float
  nearest to it.
\<close>

theorem calculate_heat_index_rounds_float_sum_witness:
  "calculate_heat_index 75 60 = Finite 105 \<and>
   calculate_heat_index (1 / 8) 0 = Finite (8646911284551352 / 2 ^ 56)"
proof
  have p: "float_mul 0.5 60 = Finite 30"
    unfolding float_mul_def
    by (rule to_double_eval[where k = 4]) (simp_all add: power_int_minus round_half_even_def)
  have s: "float_add 75 30 = Finite 105"
    unfolding float_add_def
    by (rule to_double_eval[where k = 6]) (simp_all add: power_int_minus round_half_even_def)
  from calculate_heat_index_rounds_float_sum[OF p s] obtain k where
    c: "calculate_heat_index 75 60 = to_double (real_of_int k / 100)" and
    k: "\<bar>real_of_int k - 100 * 105\<bar> \<le> 1 / 2"
    by blast
  from k have "\<bar>real_of_int k - real_of_int 10500\<bar> < 1" by simp
  then have "k = 10500" by (rule int_near)
  moreover have "to_double 105 = Finite 105"
    by (rule to_double_eval[where k = 6]) (simp_all add: power_int_minus round_half_even_def)
  ultimately show "calculate_heat_index 75 60 = Finite 105" using c by simp
next
  have p: "float_mul 0.5 0 = Finite 0"
    by (simp add: float_mul_def to_double_0)
  have s: "float_add (1 / 8) 0 = Finite (1 / 8)"
    unfolding float_add_def
    by (rule to_double_eval[where k = "- 3"]) (simp_all add: power_int_minus round_half_even_def)
  from calculate_heat_index_rounds_float_sum[OF p s] obtain k where
    c: "calculate_heat_index (1 / 8) 0 = to_double (real_of_int k / 100)" and
    k: "\<bar>real_of_int k - 100 * (1 / 8)\<bar> \<le> 1 / 2" and
    e: "\<bar>real_of_int k - 100 * (1 / 8)\<bar> = 1 / 2 \<longrightarrow> even k"
    by blast
  have "k = 12 \<or> k = 13"
  proof -
    from k have "real_of_int k < 14" "11 < real_of_int k"
      by linarith+
    then have "k < 14" "11 < k" by simp_all
    then show ?thesis by auto
  qed
  moreover have "k \<noteq> 13" using e by auto
  ultimately have "k = 12" by simp
  with c to_double_12 show "calculate_heat_index (1 / 8) 0 = Finite (8646911284551352 / 2 ^ 56)"
    by simp
qed

text \<open>
  Claim C6. On float parameters, the heat-index route answers 422 if and only if the
  temperature is outside \<open>[-50, 150]\<close> or the humidity is outside \<open>[0, 100]\<close>, and then
  the body is a non-empty list of validation errors; for every pair in range it answers
  200 with both inputs unchanged and the heat index the service computes, a finite float
  given by the float operations in the order of the source and within \<open>0.005 + 10 ^ -12\<close>
  of \<open>t + 0.5 * h\<close>.
\<close>

theorem heat_index_route_validation:
  "(status_code (route_calculate_heat_index t h) = 422 \<longleftrightarrow>
      t < - 50 \<or> 150 < t \<or> h < 0 \<or> 100 < h) \<and>
   (t < - 50 \<or> 150 < t \<or> h < 0 \<or> 100 < h \<longrightarrow>
      (\<exists>errors. errors \<noteq> [] \<and>
         body (route_calculate_heat_index t h) = Validation_detail errors)) \<and>
   (- 50 \<le> t \<and> t \<le> 150 \<and> 0 \<le> h \<and> h \<le> 100 \<longrightarrow>
      (\<exists>x. route_calculate_heat_index t h =
             \<lparr>status_code = 200,
              body = Json_float_dict [(''temperature'', Finite t), (''humidity'', Finite h),
                                      (''heat_index'', Finite x)]\<rparr> \<and>
           calculate_heat_index t h = Finite x \<and>
           x = nearest_double (real_of_int (round_half_even
                 (100 * nearest_double (t + nearest_double (h / 2)))) / 100) \<and>
           \<bar>x - (t + 0.5 * h)\<bar> \<le> 1 / 200 + 1 / 10 ^ 12))"
proof (intro conjI impI)
  show "status_code (route_calculate_heat_index t h) = 422 \<longleftrightarrow>
      t < - 50 \<or> 150 < t \<or> h < 0 \<or> 100 < h"
    by (auto simp: route_calculate_heat_index_def query_ge_le_def Let_def)
next
  assume "t < - 50 \<or> 150 < t \<or> h < 0 \<or> 100 < h"
  then show "\<exists>errors. errors \<noteq> [] \<and>
         body (route_calculate_heat_index t h) = Validation_detail errors"
    by (auto simp: route_calculate_heat_index_def query_ge_le_def Let_def)
next
  assume r: "- 50 \<le> t \<and> t \<le> 150 \<and> 0 \<le> h \<and> h \<le> 100"
  let ?x = "nearest_double (real_of_int (round_half_even
                 (100 * nearest_double (t + nearest_double (h / 2)))) / 100)"
  from r have c: "calculate_heat_index t h = Finite ?x"
    and b: "\<bar>?x - (t + 0.5 * h)\<bar> \<le> 1 / 200 + 1 / 10 ^ 12"
    by (simp_all only: heat_index_in_range)
  from r have "route_calculate_heat_index t h =
             \<lparr>status_code = 200,
              body = Json_float_dict [(''temperature'', Finite t), (''humidity'', Finite h),
                                      (''heat_index'', Finite ?x)]\<rparr>"
    by (simp add: route_calculate_heat_index_def query_ge_le_def Let_def c)
  with c b show "\<exists>x. route_calculate_heat_index t h =
             \<lparr>status_code = 200,
              body = Json_float_dict [(''temperature'', Finite t), (''humidity'', Finite h),
                                      (''heat_index'', Finite x)]\<rparr> \<and>
           calculate_heat_index t h = Finite x \<and>
           x = nearest_double (real_of_int (round_half_even
                 (100 * nearest_double (t + nearest_double (h / 2)))) / 100) \<and>
           \<bar>x - (t + 0.5 * h)\<bar> \<le> 1 / 200 + 1 / 10 ^ 12"
    by blast
qed

text \<open>
  Claim C6, witness: temperature 200 and humidity 150 are rejected; 75 and 60 are echoed
  with the heat index 105.
\<close>

theorem heat_index_route_validation_witness:
  "status_code (route_calculate_heat_index 200 60) = 422 \<and>
   status_code (route_calculate_heat_index 75 150) = 422 \<and>
   route_calculate_heat_index 75 60 =
     \<lparr>status_code = 200,
      body = Json_float_dict [(''temperature'', Finite 75), (''humidity'', Finite 60),
                              (''heat_index'', Finite 105)]\<rparr>"
proof -
  from heat_index_route_validation[of 200 60]
  have 1: "status_code (route_calculate_heat_index 200 60) = 422" by simp
  from heat_index_route_validation[of 75 150]
  have 2: "status_code (route_calculate_heat_index 75 150) = 422" by simp
  from heat_index_route_validation[of 75 60] obtain x where
    "route_calculate_heat_index 75 60 =
       \<lparr>status_code = 200,
        body = Json_float_dict [(''temperature'', Finite 75), (''humidity'', Finite 60),
                                (''heat_index'', Finite x)]\<rparr>"
    and "calculate_heat_index 75 60 = Finite x"
    by auto
  with heat_index_75_60 have 3: "route_calculate_heat_index 75 60 =
       \<lparr>status_code = 200,
        body = Json_float_dict [(''temperature'', Finite 75), (''humidity'', Finite 60),
                                (''heat_index'', Finite 105)]\<rparr>"
    by simp
  from 1 2 3 show ?thesis by blast
qed

text \<open>
  Claim C7. For every seed city, after any sequence of calls, \<open>get_weather\<close> succeeds and
  returns a record whose \<open>city\<close> field is the input key and whose temperature (the field
  \<open>temp\<close>), humidity and condition are those of the seed record of that city.
\<close>

theorem get_weather_seed_record:
  assumes "map_of weather_service city = Some seed"
  shows "\<exists>r tbl'. get_weather cfg now (run cfg calls) city = (Inr r, tbl') \<and>
           map_of r ''city'' = Some (PyStr city) \<and>
           map_of r ''temp'' = map_of seed ''temp'' \<and>
           map_of r ''humidity'' = map_of seed ''humidity'' \<and>
           map_of r ''condition'' = map_of seed ''condition''"
proof -
  from seed_stored[OF assms] obtain stored where
    st: "map_of (run cfg calls) city = Some stored" and ok: "record_ok cfg seed stored"
    by blast
  from record_ok_temp[OF ok] obtain t where t: "map_of stored ''temp'' = Some (PyFloat t)"
    by blast
  let ?r = "annotate (t > max_temperature cfg) now city stored"
  have 1: "get_weather cfg now (run cfg calls) city = (Inr ?r, AList.update city ?r (run cfg calls))"
    by (rule get_weather_success[OF st t])
  have 2: "map_of ?r ''city'' = Some (PyStr city)"
    by (simp add: map_of_annotate)
  have 3: "map_of ?r ''temp'' = map_of seed ''temp''"
          "map_of ?r ''humidity'' = map_of seed ''humidity''"
          "map_of ?r ''condition'' = map_of seed ''condition''"
    using ok by (simp_all add: map_of_annotate record_ok_def)
  from 1 2 3 show ?thesis by blast
qed

text \<open>
  Claim C7, witness: New York after two earlier calls still reads 72.5, 65 and
  \<open>Partly Cloudy\<close>.
\<close>

theorem get_weather_seed_record_witness:
  "\<exists>r tbl'. get_weather default_settings ''12:00:00''
              (run default_settings [Get_weather ''New York'' ''11:59:59'', Get_available_cities])
              ''New York'' = (Inr r, tbl') \<and>
     map_of r ''city'' = Some (PyStr ''New York'') \<and>
     map_of r ''temp'' = Some (PyFloat 72.5) \<and>
     map_of r ''humidity'' = Some (PyInt 65) \<and>
     map_of r ''condition'' = Some (PyStr ''Partly Cloudy'')"
proof -
  have h: "map_of weather_service ''New York'' =
             Some [(''temp'', PyFloat 72.5), (''humidity'', PyInt 65),
                   (''condition'', PyStr ''Partly Cloudy'')]"
    by (simp add: weather_service_def)
  from get_weather_seed_record[OF h, of default_settings "''12:00:00''"
      "[Get_weather ''New York'' ''11:59:59'', Get_available_cities]"]
  show ?thesis by simp
qed

text \<open>
  Claim C8. After any sequence of calls, \<open>get_available_cities\<close> returns the four seed
  names in the order of the seed data, New York, London, Tokyo, Sydney; the route returns
  them with status 200.
\<close>

theorem get_available_cities_seed_order:
  "get_available_cities (run cfg calls) = [''New York'', ''London'', ''Tokyo'', ''Sydney''] \<and>
   route_get_available_cities (run cfg calls) =
     \<lparr>status_code = 200, body = Json_list [''New York'', ''London'', ''Tokyo'', ''Sydney'']\<rparr>"
  by (simp add: route_get_available_cities_def get_available_cities_def run_keys seed_keys)

text \<open>
  Claim C9. Every service call leaves the key set of the table as it was, and after any
  sequence of calls the keys of the table are the four seed city names.
\<close>

theorem calls_preserve_key_set:
  "dom (map_of (step cfg tbl c)) = dom (map_of tbl) \<and>
   dom (map_of (run cfg calls)) = {''New York'', ''London'', ''Tokyo'', ''Sydney''}"
proof
  have "map fst (step cfg tbl c) = map fst tbl"
    by (cases c) (simp_all add: get_weather_keys)
  then have "set (map fst (step cfg tbl c)) = set (map fst tbl)" by simp
  then show "dom (map_of (step cfg tbl c)) = dom (map_of tbl)"
    by (simp add: dom_map_of_conv_image_fst)
  have "set (map fst (run cfg calls)) = set [''New York'', ''London'', ''Tokyo'', ''Sydney'']"
    by (simp only: run_keys seed_keys)
  then show "dom (map_of (run cfg calls)) = {''New York'', ''London'', ''Tokyo'', ''Sydney''}"
    by (simp add: dom_map_of_conv_image_fst)
qed

text \<open>
  Claim C10. When \<open>get_weather\<close> raises, as it does with \<open>ValueError\<close> for an absent
  city, the table after the call is the table before it.
\<close>

theorem get_weather_failure_frame:
  assumes "fst (get_weather cfg now tbl city) = Inl e"
  shows "snd (get_weather cfg now tbl city) = tbl"
  using assms by (rule get_weather_error_frame)

text \<open>Claim C10, witness: the failed lookup of Paris leaves the initial table.\<close>

theorem get_weather_failure_frame_witness:
  "fst (get_weather default_settings ''12:00:00'' weather_service ''Paris'') =
     Inl (ValueError ''Weather data not found for city: Paris'') \<and>
   snd (get_weather default_settings ''12:00:00'' weather_service ''Paris'') = weather_service"
proof -
  have h: "fst (get_weather default_settings ''12:00:00'' weather_service ''Paris'') =
             Inl (ValueError ''Weather data not found for city: Paris'')"
    by (simp add: get_weather_def weather_service_def not_found_message_def)
  from h get_weather_failure_frame[OF h] show ?thesis by (rule conjI)
qed

end
